theory Spec2Isabelle
  imports Complex_Main "HOL-Library.Char_ord" "HOL-Library.List_Lexorder"
begin

section \<open>Python values and dictionaries\<close>

text \<open>
  The quote payloads of \<^verbatim>\<open>quote_sources\<close> and \<^verbatim>\<open>backend/main.py\<close> are Python dictionaries
  from field names to \<^verbatim>\<open>None\<close>, numbers or strings. A Python \<^verbatim>\<open>float\<close> is idealised as an
  exact rational; no result below depends on rounding. Strings are byte strings, so the
  length of a string is its number of bytes (the same as Python's count for ASCII text).
\<close>

datatype pyval = VNone | VInt int | VFloat rat | VStr string

type_synonym pydict = "(string \<times> pyval) list"

text \<open>\<^verbatim>\<open>d.get(k)\<close>: the value stored under \<open>k\<close>, \<^verbatim>\<open>None\<close> when the key is absent.\<close>

definition dget :: "pydict \<Rightarrow> string \<Rightarrow> pyval" where
  "dget d k = (case map_of d k of None \<Rightarrow> VNone | Some v \<Rightarrow> v)"

text \<open>\<^verbatim>\<open>(d or {}).get(k)\<close> for a value \<open>d\<close> that is a dictionary or \<^verbatim>\<open>None\<close>.\<close>

definition odget :: "pydict option \<Rightarrow> string \<Rightarrow> pyval" where
  "odget d k = (case d of None \<Rightarrow> VNone | Some m \<Rightarrow> dget m k)"

text \<open>Python truthiness of a value, and of a dictionary-or-\<^verbatim>\<open>None\<close>.\<close>

fun truthy :: "pyval \<Rightarrow> bool" where
  "truthy VNone = False"
| "truthy (VInt i) = (i \<noteq> 0)"
| "truthy (VFloat x) = (x \<noteq> 0)"
| "truthy (VStr s) = (s \<noteq> [])"

definition dict_truthy :: "pydict option \<Rightarrow> bool" where
  "dict_truthy d = (case d of None \<Rightarrow> False | Some m \<Rightarrow> m \<noteq> [])"

text \<open>The outcome of calling code that may raise.\<close>

datatype 'a outcome = Raises | Returns 'a

section \<open>Fallback composition of two quote providers\<close>

text \<open>
  \<^verbatim>\<open>quote_sources/__init__.py\<close>, \<^verbatim>\<open>_fallback_provider\<close>. A provider is its optional \<^verbatim>\<open>name\<close>
  attribute and its \<^verbatim>\<open>get_full\<close>, which returns a dictionary (or \<^verbatim>\<open>None\<close>) or raises.
\<close>

record provider =
  pname :: "string option"
  get_full :: "string \<Rightarrow> pydict option outcome"

datatype role = Primary | Secondary

text \<open>\<^verbatim>\<open>symbol.upper().strip()\<close> on ASCII text.\<close>

definition py_upper_char :: "char \<Rightarrow> char" where
  "py_upper_char c =
     (if CHR ''a'' \<le> c \<and> c \<le> CHR ''z'' then char_of (of_char c - (32::nat)) else c)"

definition py_isspace :: "char \<Rightarrow> bool" where
  "py_isspace c = (c = CHR '' '' \<or> (9::nat) \<le> of_char c \<and> of_char c \<le> (13::nat)
                   \<or> (28::nat) \<le> of_char c \<and> of_char c \<le> (31::nat))"

definition py_strip :: "string \<Rightarrow> string" where
  "py_strip s = rev (dropWhile py_isspace (rev (dropWhile py_isspace s)))"

definition upper_strip :: "string \<Rightarrow> string" where
  "upper_strip s = py_strip (map py_upper_char s)"

text \<open>The payload synthesised when a provider's \<^verbatim>\<open>get_full\<close> raises.\<close>

definition network_error_payload :: "string \<Rightarrow> string \<Rightarrow> pydict" where
  "network_error_payload symbol src =
     [(''symbol'', VStr (upper_strip symbol)),
      (''price'', VNone), (''prev_close'', VNone), (''open'', VNone), (''high'', VNone),
      (''low'', VNone), (''volume'', VNone), (''latest_trading_day'', VNone),
      (''change'', VNone), (''change_percent'', VNone), (''market_cap'', VNone),
      (''pe_ratio'', VNone), (''dividend_yield_percent'', VNone),
      (''fifty_two_week_high'', VNone), (''fifty_two_week_low'', VNone),
      (''quarterly_dividend_amount'', VNone), (''next_earning_day'', VNone),
      (''description'', VNone), (''source'', VStr src),
      (''error'', VStr ''network_error'')]"

text \<open>\<^verbatim>\<open>getattr(p, "name", default)\<close>.\<close>

definition name_or :: "provider \<Rightarrow> string \<Rightarrow> string" where
  "name_or p dflt = (case pname p of None \<Rightarrow> dflt | Some n \<Rightarrow> n)"

text \<open>\<^verbatim>\<open>bool(d and ((d.get("price") is not None) or (d.get("prev_close") is not None)))\<close>.\<close>

definition has_data :: "pydict option \<Rightarrow> bool" where
  "has_data d = (dict_truthy d \<and> (odget d ''price'' \<noteq> VNone \<or> odget d ''prev_close'' \<noteq> VNone))"

text \<open>
  \<^verbatim>\<open>FallbackQuoteProvider.get_full\<close>. The result is paired with the list of underlying
  providers whose \<^verbatim>\<open>get_full\<close> was invoked, in call order.
\<close>

definition fallback_get_full ::
  "provider \<Rightarrow> provider \<Rightarrow> string \<Rightarrow> pydict option \<times> role list" where
  "fallback_get_full primary secondary symbol =
     (let d = (case get_full primary symbol of
                 Raises \<Rightarrow> Some (network_error_payload symbol (name_or primary ''primary''))
               | Returns r \<Rightarrow> r);
          primary_err = odget d ''error'';
          primary_has_data = has_data d
      in if \<not> truthy primary_err \<and> primary_has_data then (d, [Primary])
         else
           let d2 = (case get_full secondary symbol of
                       Raises \<Rightarrow> Some (network_error_payload symbol (name_or secondary ''secondary''))
                     | Returns r \<Rightarrow> r);
               secondary_err = odget d2 ''error'';
               secondary_has_data = has_data d2
           in if secondary_has_data \<and> \<not> primary_has_data then (d2, [Primary, Secondary])
              else if primary_has_data \<and> \<not> secondary_has_data then (d, [Primary, Secondary])
              else if \<not> truthy primary_err \<and> truthy secondary_err then (d, [Primary, Secondary])
              else (d2, [Primary, Secondary]))"

section \<open>Configuration and environment\<close>

text \<open>
  The module-level constants of \<^verbatim>\<open>backend/main.py\<close> that the modelled functions read.
\<close>

record config =
  DISCORD_WEBHOOK :: string
  COOLDOWN_MINUTES :: int
  RUN_TIMEOUT_SECONDS :: int
  ALERT_FIRE_TIMES :: "string list"
  WATCH_ID :: int

section \<open>Cooldown check\<close>

text \<open>\<^verbatim>\<open>_cooldown_ok\<close> (a leading underscore is not part of an Isabelle name).\<close>

definition cooldown_ok :: "config \<Rightarrow> int option \<Rightarrow> int \<Rightarrow> bool" where
  "cooldown_ok cfg last_sent_epoch now_epoch =
     (case last_sent_epoch of
        None \<Rightarrow> True
      | Some l \<Rightarrow> now_epoch - l \<ge> COOLDOWN_MINUTES cfg * 60)"

section \<open>The environment: clock, webhook, data provider, library functions\<close>

text \<open>
  A local date and time as \<^verbatim>\<open>datetime.now(ZoneInfo(MARKET_TZ))\<close> returns it: the proleptic
  ordinal of the date (\<^verbatim>\<open>date.toordinal()\<close>) and the time of day.
\<close>

record local_time =
  ordinal :: int
  hour :: nat
  minute :: nat
  second :: nat
  microsecond :: nat

text \<open>The result of \<^verbatim>\<open>requests.post\<close>: an exception, or a response with its status code.\<close>

datatype http_result = PostRaises | Status int

text \<open>
  The database calls that may raise (an \<^verbatim>\<open>sqlite3\<close> error): in \<^verbatim>\<open>check_alerts\<close> the write of
  the start record, the read of the watchlist, the write for an empty watchlist and the
  write of the \<^verbatim>\<open>finally\<close> block; the snapshot write for a symbol id; in
  \<^verbatim>\<open>_evaluate_and_notify\<close> the read of the rules of a symbol id and, for an alert id, the read
  and the write of its suppression row; in \<^verbatim>\<open>api_update_all\<close> the recovery call and the read
  of the phase.
\<close>

datatype fault_point =
    WriteRunStart | ReadWatchlist | WriteEmptyStatus | WriteRunFinish
  | Persist int | ReadAlerts int | ReadAlertState int | WriteAlertState int
  | RecoverRunStatus | ReadRunStatus

text \<open>
  Everything outside the repository that the modelled code calls. The clock, the webhook
  and the data provider are indexed by the number of earlier calls, so that every call
  may have a different outcome. The formatting and parsing functions stand for the
  library calls named beside them.
\<close>

record env =
  time_at :: "nat \<Rightarrow> int"  \<comment> \<open>\<^verbatim>\<open>int(time.time())\<close>\<close>
  local_now_at :: "nat \<Rightarrow> local_time outcome"  \<comment> \<open>\<^verbatim>\<open>datetime.now(ZoneInfo(MARKET_TZ))\<close>\<close>
  webhook :: "nat \<Rightarrow> string \<Rightarrow> http_result"  \<comment> \<open>\<^verbatim>\<open>requests.post(DISCORD_WEBHOOK, ...)\<close>\<close>
  provider_get_full :: "nat \<Rightarrow> string \<Rightarrow> pydict option outcome"  \<comment> \<open>\<^verbatim>\<open>PROVIDER.get_full\<close>\<close>
  db_fault :: "fault_point \<Rightarrow> bool"  \<comment> \<open>the database call at this place raises\<close>
  thread_start_fails :: bool  \<comment> \<open>\<^verbatim>\<open>threading.Thread(...).start()\<close> raises\<close>
  strptime_ymd :: "string \<Rightarrow> int option"
    \<comment> \<open>ordinal of \<^verbatim>\<open>datetime.strptime(d, "%Y-%m-%d").date()\<close>, \<open>None\<close> when it raises\<close>
  strftime_local :: "local_time \<Rightarrow> string"  \<comment> \<open>\<^verbatim>\<open>strftime('%Y-%m-%d %H:%M:%S %Z')\<close>\<close>
  utc_date_text :: "int \<Rightarrow> string option"
    \<comment> \<open>\<^verbatim>\<open>datetime.utcfromtimestamp(n).strftime("%Y-%m-%d")\<close>, \<open>None\<close> when it raises\<close>
  fmt_fixed :: "nat \<Rightarrow> rat \<Rightarrow> string"  \<comment> \<open>\<^verbatim>\<open>f"{x:.2f}"\<close> and \<^verbatim>\<open>f"{x:.0f}"\<close>\<close>
  str_float :: "rat \<Rightarrow> string"  \<comment> \<open>\<^verbatim>\<open>str(x)\<close> for a float\<close>
  int_of_str :: "string \<Rightarrow> int option"  \<comment> \<open>\<^verbatim>\<open>int(s)\<close> for a string, \<open>None\<close> when it raises\<close>

section \<open>The database and the interaction history\<close>

text \<open>The single row of table \<^verbatim>\<open>run_status\<close>.\<close>

record run_status_row =
  phase :: string
  started_epoch :: "int option"
  finished_epoch :: "int option"
  status_code :: "string option"
  message :: "string option"
  ok_count :: "int option"
  err_count :: "int option"

text \<open>A row of table \<^verbatim>\<open>alert_state\<close>, keyed by \<^verbatim>\<open>alert_id\<close>.\<close>

record alert_state_row =
  last_sent_epoch :: "int option"
  last_sent_key :: "string option"

text \<open>
  The tables the modelled code reads and writes, and the calls made so far to the clock,
  the data provider and the webhook. A row of \<^verbatim>\<open>symbol_state\<close> maps column names to values
  (\<open>VNone\<close> is SQL \<^verbatim>\<open>NULL\<close>); \<^verbatim>\<open>symbols\<close> rows are (id, ticker, group id) and \<^verbatim>\<open>alerts\<close> rows
  are (id, symbol id, type, value).
\<close>

record world =
  run_status :: "run_status_row option"
  symbols :: "(int \<times> string \<times> int) list"
  alerts :: "(int \<times> int \<times> string \<times> rat) list"
  alert_state :: "int \<Rightarrow> alert_state_row option"
  symbol_state :: "int \<Rightarrow> (string \<Rightarrow> pyval) option"
  clock_reads :: nat
  fetch_log :: "(string \<times> pydict option outcome) list"
  post_log :: "(string \<times> http_result) list"

text \<open>\<^verbatim>\<open>int(time.time())\<close> and \<^verbatim>\<open>datetime.now(ZoneInfo(MARKET_TZ))\<close>.\<close>

definition read_time :: "env \<Rightarrow> world \<Rightarrow> int \<times> world" where
  "read_time e w = (time_at e (clock_reads w), w\<lparr>clock_reads := Suc (clock_reads w)\<rparr>)"

definition read_local :: "env \<Rightarrow> world \<Rightarrow> local_time outcome \<times> world" where
  "read_local e w = (local_now_at e (clock_reads w), w\<lparr>clock_reads := Suc (clock_reads w)\<rparr>)"

section \<open>Run-status helpers\<close>


text \<open>
  \<^verbatim>\<open>_auto_recover_run_status\<close>: a row in phase \<^verbatim>\<open>running\<close> whose \<^verbatim>\<open>started_epoch\<close> is an integer
  at least \<^verbatim>\<open>RUN_TIMEOUT_SECONDS\<close> old is finished as \<^verbatim>\<open>interrupted_timeout\<close>. The clock is
  read once for the age and once more for \<^verbatim>\<open>finished_epoch\<close>.
\<close>

definition auto_recover_run_status :: "config \<Rightarrow> env \<Rightarrow> world \<Rightarrow> world" where
  "auto_recover_run_status cfg e w =
     (case run_status w of
        None \<Rightarrow> w
      | Some r \<Rightarrow>
          (case started_epoch r of
             None \<Rightarrow> w
           | Some started \<Rightarrow>
               if phase r = ''running'' then
                 let (t1, w1) = read_time e w;
                     age = t1 - started
                 in if age \<ge> RUN_TIMEOUT_SECONDS cfg then
                      let (t2, w2) = read_time e w1
                      in w2\<lparr>run_status := Some
                           (r\<lparr>phase := ''finished'',
                              finished_epoch := Some t2,
                              status_code := Some ''interrupted_timeout'',
                              message := Some ''Auto-recovered: run exceeded timeout''\<rparr>)\<rparr>
                    else w1
               else w))"

text \<open>\<^verbatim>\<open>_is_run_already_running\<close>; without the row \<^verbatim>\<open>get_run_status\<close> reports phase \<^verbatim>\<open>idle\<close>.\<close>

definition is_run_already_running :: "world \<Rightarrow> bool" where
  "is_run_already_running w =
     (case run_status w of None \<Rightarrow> False | Some r \<Rightarrow> phase r = ''running'')"

section \<open>Alert suppression state\<close>

definition get_last_sent_epoch :: "world \<Rightarrow> int \<Rightarrow> int option" where
  "get_last_sent_epoch w alert_id =
     (case alert_state w alert_id of None \<Rightarrow> None | Some r \<Rightarrow> last_sent_epoch r)"

definition get_last_sent_key :: "world \<Rightarrow> int \<Rightarrow> string option" where
  "get_last_sent_key w alert_id =
     (case alert_state w alert_id of None \<Rightarrow> None | Some r \<Rightarrow> last_sent_key r)"

text \<open>
  \<^verbatim>\<open>set_last_sent_epoch\<close> and \<^verbatim>\<open>set_last_sent\<close>: insert the row, or on conflict update only the
  columns named in the statement.
\<close>

definition set_last_sent_epoch :: "int \<Rightarrow> int \<Rightarrow> world \<Rightarrow> world" where
  "set_last_sent_epoch alert_id epoch w =
     w\<lparr>alert_state := (alert_state w)(alert_id :=
          Some (case alert_state w alert_id of
                  None \<Rightarrow> \<lparr>last_sent_epoch = Some epoch, last_sent_key = None\<rparr>
                | Some r \<Rightarrow> r\<lparr>last_sent_epoch := Some epoch\<rparr>))\<rparr>"

definition set_last_sent :: "int \<Rightarrow> int \<Rightarrow> string option \<Rightarrow> world \<Rightarrow> world" where
  "set_last_sent alert_id epoch key w =
     (case key of
        None \<Rightarrow>
          w\<lparr>alert_state := (alert_state w)(alert_id :=
               Some (case alert_state w alert_id of
                       None \<Rightarrow> \<lparr>last_sent_epoch = Some epoch, last_sent_key = None\<rparr>
                     | Some r \<Rightarrow> r\<lparr>last_sent_epoch := Some epoch\<rparr>))\<rparr>
      | Some k \<Rightarrow>
          w\<lparr>alert_state := (alert_state w)(alert_id :=
               Some \<lparr>last_sent_epoch = Some epoch, last_sent_key = Some k\<rparr>)\<rparr>)"

section \<open>Notifier\<close>

text \<open>
  \<^verbatim>\<open>_notify_discord\<close>: without a configured webhook nothing is posted and the result is
  \<^verbatim>\<open>False\<close>; otherwise the content is posted and the result is \<^verbatim>\<open>True\<close> exactly for a 2xx
  response. The POST is recorded in \<open>post_log\<close>.
\<close>

definition notify_discord :: "config \<Rightarrow> env \<Rightarrow> string \<Rightarrow> world \<Rightarrow> bool \<times> world" where
  "notify_discord cfg e content w =
     (if DISCORD_WEBHOOK cfg = [] then (False, w)
      else
        let r = webhook e (length (post_log w)) content;
            w' = w\<lparr>post_log := post_log w @ [(content, r)]\<rparr>
        in (case r of
              PostRaises \<Rightarrow> (False, w')
            | Status code \<Rightarrow> (if code div 100 \<noteq> 2 then (False, w') else (True, w'))))"

section \<open>Alert evaluation\<close>

datatype exn = TypeError | ValueError | AttributeError | DatabaseError

text \<open>Decimal text of an integer, \<^verbatim>\<open>str(n)\<close>.\<close>

fun nat_digits :: "nat \<Rightarrow> string" where
  "nat_digits n =
     (if n < 10 then [''0123456789'' ! n]
      else nat_digits (n div 10) @ [''0123456789'' ! (n mod 10)])"

declare nat_digits.simps [simp del]

definition str_int :: "int \<Rightarrow> string" where
  "str_int i = (if i < 0 then CHR ''-'' # nat_digits (nat (- i)) else nat_digits (nat i))"

text \<open>\<^verbatim>\<open>int(x)\<close> for a float: truncation towards zero.\<close>

definition py_int :: "rat \<Rightarrow> int" where
  "py_int x = (if x \<ge> 0 then \<lfloor>x\<rfloor> else \<lceil>x\<rceil>)"

text \<open>\<^verbatim>\<open>str(v)\<close>, also what an f-string writes for \<^verbatim>\<open>{v}\<close>.\<close>

definition py_str :: "env \<Rightarrow> pyval \<Rightarrow> string" where
  "py_str e v = (case v of
       VNone \<Rightarrow> ''None''
     | VInt i \<Rightarrow> str_int i
     | VFloat x \<Rightarrow> str_float e x
     | VStr s \<Rightarrow> s)"

definition num_of :: "pyval \<Rightarrow> rat option" where
  "num_of v = (case v of VInt i \<Rightarrow> Some (of_int i) | VFloat x \<Rightarrow> Some x | _ \<Rightarrow> None)"

text \<open>The UTF-8 bytes of the em dash and of the bell emoji used in the messages.\<close>

definition em_dash :: string where
  "em_dash = [char_of (226::nat), char_of (128::nat), char_of (148::nat)]"

definition bell :: string where
  "bell = [char_of (240::nat), char_of (159::nat), char_of (148::nat), char_of (148::nat)]"

definition fmt_pct :: "env \<Rightarrow> rat option \<Rightarrow> string" where
  "fmt_pct e val = (case val of None \<Rightarrow> em_dash | Some x \<Rightarrow> fmt_fixed e 2 x @ ''%'')"

text \<open>The em dash for \<^verbatim>\<open>None\<close>, else \<^verbatim>\<open>f"{v:.2f}"\<close>; the format raises \<^verbatim>\<open>ValueError\<close> on a string.\<close>

definition fmt_price :: "env \<Rightarrow> pyval \<Rightarrow> exn + string" where
  "fmt_price e v = (case v of
       VNone \<Rightarrow> Inr em_dash
     | VInt i \<Rightarrow> Inr (fmt_fixed e 2 (of_int i))
     | VFloat x \<Rightarrow> Inr (fmt_fixed e 2 x)
     | VStr s \<Rightarrow> Inl ValueError)"

definition build_alert_msg ::
  "env \<Rightarrow> string \<Rightarrow> pyval \<Rightarrow> pyval \<Rightarrow> rat option \<Rightarrow> string \<Rightarrow> exn + string" where
  "build_alert_msg e ticker price open' pct_from_open trigger =
     (case fmt_price e price of
        Inl x \<Rightarrow> Inl x
      | Inr pr \<Rightarrow>
          (case fmt_price e open' of
             Inl x \<Rightarrow> Inl x
           | Inr op \<Rightarrow>
               Inr (''**'' @ ticker @ ''** '' @ trigger @ [char_of (10::nat)] @ ''Price: '' @ pr
                    @ '' | Open: '' @ op @ '' | From open: '' @ fmt_pct e pct_from_open)))"

text \<open>
  \<^verbatim>\<open>_days_until_earnings\<close>: \<^verbatim>\<open>None\<close> for a missing or empty date, for a date that does not
  parse and when the local date cannot be read; the local clock is read only after the
  date has parsed.
\<close>

definition days_until_earnings :: "env \<Rightarrow> string option \<Rightarrow> world \<Rightarrow> int option \<times> world" where
  "days_until_earnings e next_earning_day w =
     (case next_earning_day of
        None \<Rightarrow> (None, w)
      | Some s \<Rightarrow>
          if s = [] then (None, w)
          else
            (case strptime_ymd e (take 10 s) of
               None \<Rightarrow> (None, w)
             | Some earn_date \<Rightarrow>
                 (case read_local e w of
                    (Raises, w') \<Rightarrow> (None, w')
                  | (Returns now_local, w') \<Rightarrow> (Some (earn_date - ordinal now_local), w'))))"

text \<open>
  \<^verbatim>\<open>pct_from_open\<close> as \<^verbatim>\<open>_evaluate_and_notify\<close> computes it before its loop: only when
  \<^verbatim>\<open>open_ not in (None, 0)\<close> and the price is not \<^verbatim>\<open>None\<close>; the arithmetic raises
  \<^verbatim>\<open>TypeError\<close> on a string.
\<close>

definition pct_from_open_of :: "pyval \<Rightarrow> pyval \<Rightarrow> exn + rat option" where
  "pct_from_open_of price open' =
     (if open' = VNone \<or> num_of open' = Some 0 then Inr None
      else if price = VNone then Inr None
      else
        (case (num_of price, num_of open') of
           (Some p, Some opn) \<Rightarrow> Inr (Some ((p - opn) / opn * 100))
         | _ \<Rightarrow> Inl TypeError))"

text \<open>The first truthy value among the given keys, \<^verbatim>\<open>None\<close> when there is none.\<close>

fun first_truthy :: "pydict \<Rightarrow> string list \<Rightarrow> pyval" where
  "first_truthy d [] = VNone"
| "first_truthy d (k # ks) = (if truthy (dget d k) then dget d k else first_truthy d ks)"

definition earnings_keys :: "string list" where
  "earnings_keys = [''next_earning_day'', ''next_earnings_day'', ''earnings_date'', ''nextEarningsDate'']"

definition next_earn_of :: "env \<Rightarrow> pydict \<Rightarrow> string option" where
  "next_earn_of e quote =
     (let v = first_truthy quote earnings_keys
      in if truthy v then Some (take 10 (py_str e v)) else None)"

text \<open>A comparison of the price with the rule's value; it raises \<^verbatim>\<open>TypeError\<close> on a string.\<close>

definition price_cmp :: "(rat \<Rightarrow> rat \<Rightarrow> bool) \<Rightarrow> pyval \<Rightarrow> rat \<Rightarrow> exn + bool" where
  "price_cmp rel price a_val =
     (case num_of price of None \<Rightarrow> Inl TypeError | Some p \<Rightarrow> Inr (rel p a_val))"

text \<open>The \<^verbatim>\<open>if\<close>/\<^verbatim>\<open>elif\<close> chain that sets \<^verbatim>\<open>trigger\<close> for a price or percent rule.\<close>

definition trigger_of ::
  "env \<Rightarrow> string \<Rightarrow> rat \<Rightarrow> pyval \<Rightarrow> rat option \<Rightarrow> exn + string option" where
  "trigger_of e a_type a_val price pct_from_open =
     (case (if a_type = ''above'' \<and> price \<noteq> VNone then price_cmp (\<lambda>p v. p \<ge> v) price a_val
            else Inr False) of
        Inl x \<Rightarrow> Inl x
      | Inr True \<Rightarrow> Inr (Some (''crossed **above '' @ fmt_fixed e 2 a_val @ ''**''))
      | Inr False \<Rightarrow>
          (case (if a_type = ''below'' \<and> price \<noteq> VNone then price_cmp (\<lambda>p v. p \<le> v) price a_val
                 else Inr False) of
             Inl x \<Rightarrow> Inl x
           | Inr True \<Rightarrow> Inr (Some (''fell **below '' @ fmt_fixed e 2 a_val @ ''**''))
           | Inr False \<Rightarrow>
               if a_type = ''pct_drop''
                  \<and> (case pct_from_open of None \<Rightarrow> False | Some p \<Rightarrow> p \<le> - \<bar>a_val\<bar>)
               then Inr (Some (''**'' @ fmt_fixed e 0 \<bar>a_val\<bar> @ ''% drop** from open''))
               else if a_type = ''pct_jump''
                  \<and> (case pct_from_open of None \<Rightarrow> False | Some p \<Rightarrow> p \<ge> \<bar>a_val\<bar>)
               then Inr (Some (''**'' @ fmt_fixed e 0 \<bar>a_val\<bar> @ ''% jump** from open''))
               else Inr None))"

text \<open>The message of an earnings reminder.\<close>

definition earnings_msg :: "string \<Rightarrow> rat \<Rightarrow> string option \<Rightarrow> string" where
  "earnings_msg ticker a_val next_earn =
     bell @ '' **'' @ ticker @ ''** **earnings in '' @ str_int (py_int a_val) @ '' day(s)** on `''
     @ (case next_earn of None \<Rightarrow> ''None'' | Some s \<Rightarrow> s) @ ''`''"

text \<open>\<^verbatim>\<open>next_earn or ""\<close>.\<close>

definition earn_key :: "string option \<Rightarrow> string" where
  "earn_key next_earn = (case next_earn of None \<Rightarrow> [] | Some s \<Rightarrow> s)"

text \<open>
  The body of the loop of \<^verbatim>\<open>_evaluate_and_notify\<close> for one rule \<open>(alert_id, a_type, a_val)\<close>,
  from the state and the count \<open>sent\<close> before it to those after it. An exception raised
  inside the body is caught and logged there: a rule value that does not compare or
  format, and a database error of \<^verbatim>\<open>get_last_sent_key\<close>, \<^verbatim>\<open>get_last_sent_epoch\<close>, \<^verbatim>\<open>set_last_sent\<close> or
  \<^verbatim>\<open>set_last_sent_epoch\<close>. When the write after a delivered notification raises, neither the
  suppression row nor \<open>sent\<close> changes.
\<close>

definition eval_alert ::
  "config \<Rightarrow> env \<Rightarrow> string \<Rightarrow> pyval \<Rightarrow> pyval \<Rightarrow> rat option \<Rightarrow> string option \<Rightarrow> int \<Rightarrow>
   int \<times> string \<times> rat \<Rightarrow> world \<times> int \<Rightarrow> world \<times> int" where
  "eval_alert cfg e ticker price open' pct_from_open next_earn now_epoch rule st =
     (case (rule, st) of ((alert_id, a_type, a_val), (w, sent)) \<Rightarrow>
        if a_type = ''earnings_days'' then
          (case days_until_earnings e next_earn w of
             (None, w1) \<Rightarrow> (w1, sent)
           | (Some days_left, w1) \<Rightarrow>
               if days_left = py_int a_val then
                 if db_fault e (ReadAlertState alert_id) then (w1, sent)
                 else
                   let last_key = get_last_sent_key w1 alert_id
                   in if last_key \<noteq> Some (earn_key next_earn) then
                        (case notify_discord cfg e (earnings_msg ticker a_val next_earn) w1 of
                           (True, w2) \<Rightarrow>
                             if db_fault e (WriteAlertState alert_id) then (w2, sent)
                             else (set_last_sent alert_id now_epoch (Some (earn_key next_earn)) w2,
                                   sent + 1)
                         | (False, w2) \<Rightarrow> (w2, sent))
                      else (w1, sent)
               else (w1, sent))
        else if db_fault e (ReadAlertState alert_id) then (w, sent)
        else
          let last_sent = get_last_sent_epoch w alert_id
          in if \<not> cooldown_ok cfg last_sent now_epoch then (w, sent)
             else
               (case trigger_of e a_type a_val price pct_from_open of
                  Inl x \<Rightarrow> (w, sent)
                | Inr None \<Rightarrow> (w, sent)
                | Inr (Some trigger) \<Rightarrow>
                    (case build_alert_msg e ticker price open' pct_from_open trigger of
                       Inl x \<Rightarrow> (w, sent)
                     | Inr msg \<Rightarrow>
                         (case notify_discord cfg e msg w of
                            (True, w1) \<Rightarrow>
                              if db_fault e (WriteAlertState alert_id) then (w1, sent)
                              else (set_last_sent_epoch alert_id now_epoch w1, sent + 1)
                          | (False, w1) \<Rightarrow> (w1, sent)))))"

text \<open>
  \<^verbatim>\<open>_evaluate_and_notify\<close>: the number of notifications sent for the symbol. It raises when
  the rules cannot be read, when the symbol has rules and the quote is \<^verbatim>\<open>None\<close>, and when
  the percent from open cannot be computed.
\<close>

definition evaluate_and_notify ::
  "config \<Rightarrow> env \<Rightarrow> int \<Rightarrow> string \<Rightarrow> pydict option \<Rightarrow> int \<Rightarrow> world \<Rightarrow> exn + world \<times> int" where
  "evaluate_and_notify cfg e symbol_id ticker quote now_epoch w =
     (if db_fault e (ReadAlerts symbol_id) then Inl DatabaseError
      else
        let rows = map (\<lambda>(i, sid, t, v). (i, t, v))
                       (filter (\<lambda>(i, sid, t, v). sid = symbol_id) (alerts w))
        in if rows = [] then Inr (w, 0)
           else
             (case quote of
                None \<Rightarrow> Inl AttributeError
              | Some q \<Rightarrow>
                  let price = dget q ''price'';
                      open' = dget q ''open''
                  in (case pct_from_open_of price open' of
                        Inl x \<Rightarrow> Inl x
                      | Inr pct_from_open \<Rightarrow>
                          Inr (fold (eval_alert cfg e ticker price open' pct_from_open
                                       (next_earn_of e q) now_epoch) rows (w, 0)))))"

section \<open>Symbol-state persistence\<close>





section \<open>Bulk update\<close>











section \<open>Scheduler and on-demand trigger\<close>

text \<open>The functions that are started as jobs or threads.\<close>

datatype callable = CheckAlerts







text \<open>
  \<^verbatim>\<open>api_update_all\<close>: the \<^verbatim>\<open>status\<close> of the response (or the exception that leaves the
  handler), the function started in a background thread if any, and the state when the
  handler is left. The thread is started only after the phase has been read and found
  not to be \<^verbatim>\<open>running\<close>.
\<close>

definition api_update_all ::
  "config \<Rightarrow> env \<Rightarrow> world \<Rightarrow> (exn + string) \<times> callable option \<times> world" where
  "api_update_all cfg e w =
     (if db_fault e RecoverRunStatus then (Inl DatabaseError, None, w)
      else
        let w1 = auto_recover_run_status cfg e w
        in if db_fault e ReadRunStatus then (Inl DatabaseError, None, w1)
           else if is_run_already_running w1 then (Inr ''already_running'', None, w1)
           else if thread_start_fails e then (Inr ''error'', None, w1)
           else (Inr ''started'', Some CheckAlerts, w1))"

section \<open>Outcomes of the provider calls of a bulk run\<close>




section \<open>The snapshot row written for a fetch\<close>






section \<open>Example providers and states\<close>

definition quote_aapl :: pydict where
  "quote_aapl = [(''symbol'', VStr ''AAPL''), (''price'', VFloat 101), (''prev_close'', VFloat 100),
                 (''open'', VFloat 100), (''source'', VStr ''gemini''), (''error'', VNone)]"

definition provider_ok :: provider where
  "provider_ok = \<lparr>pname = Some ''gemini'', get_full = (\<lambda>s. Returns (Some quote_aapl))\<rparr>"

definition provider_raising :: provider where
  "provider_raising = \<lparr>pname = Some ''alpha_vantage'', get_full = (\<lambda>s. Raises)\<rparr>"

definition cfg0 :: config where
  "cfg0 = \<lparr>DISCORD_WEBHOOK = ''https://discord.example/hook'', COOLDOWN_MINUTES = 15,
           RUN_TIMEOUT_SECONDS = 600, ALERT_FIRE_TIMES = [''09:35'', ''12:00'', ''15:55''],
           WATCH_ID = 1\<rparr>"

definition env0 :: env where
  "env0 = \<lparr>time_at = (\<lambda>k. 1000 + int k),
           local_now_at = (\<lambda>k. Returns \<lparr>ordinal = 739000, hour = 10, minute = 0, second = 0,
                                         microsecond = 0\<rparr>),
           webhook = (\<lambda>k content. Status 204),
           provider_get_full = (\<lambda>k ticker.
              if ticker = ''A'' then Returns (Some quote_aapl)
              else if ticker = ''B'' then Raises
              else Returns (Some [(''symbol'', VStr ticker), (''error'', VStr ''rate_limited'')])),
           db_fault = (\<lambda>p. False),
           thread_start_fails = False,
           strptime_ymd = (\<lambda>s. if s = ''2024-05-02'' \<or> s = ''2024-5-2'' then Some 739008
                                else if s = ''2024-05-03'' then Some 739009 else None),
           strftime_local = (\<lambda>t. ''2024-04-24 10:00:00 EDT''),
           utc_date_text = (\<lambda>n. None),
           fmt_fixed = (\<lambda>n x. ''0.00''),
           str_float = (\<lambda>x. ''0.0''),
           int_of_str = (\<lambda>s. if s = ''09'' then Some 9 else if s = ''35'' then Some 35
                              else if s = ''12'' then Some 12 else if s = ''00'' then Some 0
                              else if s = ''15'' then Some 15 else if s = ''55'' then Some 55
                              else None)\<rparr>"

definition row_running :: run_status_row where
  "row_running = \<lparr>phase = ''running'', started_epoch = Some 100, finished_epoch = None,
                   status_code = None, message = Some ''Updating quotes'', ok_count = Some 0,
                   err_count = Some 0\<rparr>"

definition world0 :: world where
  "world0 = \<lparr>run_status = Some row_running,
             symbols = [(1, ''C'', 1), (2, ''A'', 1), (3, ''B'', 1), (4, ''Z'', 2)],
             alerts = [],
             alert_state = (\<lambda>a. None),
             symbol_state = (\<lambda>s. None),
             clock_reads = 0, fetch_log = [], post_log = []\<rparr>"

definition world_sent :: world where
  "world_sent = world0\<lparr>post_log := [(''**A** crossed **above 0.00**'' @ [char_of (10::nat)]
                            @ ''Price: 0.00 | Open: 0.00 | From open: 0.00%'', Status 204)],
                        alert_state := (\<lambda>a. None)(7 := Some \<lparr>last_sent_epoch = Some 5000, last_sent_key = None\<rparr>)\<rparr>"

text \<open>
  A database whose write of the suppression row of rule 7 raises, and the states of a
  symbol with the single rule 7 (\<^verbatim>\<open>above\<close> 100): before an evaluation, after an evaluation
  whose notification was delivered and whose stamp was lost, and after the next one.
\<close>

definition env_stamp_fails :: env where
  "env_stamp_fails = env0\<lparr>db_fault := (\<lambda>p. p = WriteAlertState 7)\<rparr>"

definition msg_above :: string where
  "msg_above = ''**A** crossed **above 0.00**'' @ [char_of (10::nat)]
               @ ''Price: 0.00 | Open: 0.00 | From open: 0.00%''"

definition world_rule7 :: world where
  "world_rule7 = world0\<lparr>alerts := [(7, 2, ''above'', 100)]\<rparr>"

definition world_rule7_posted :: world where
  "world_rule7_posted = world_rule7\<lparr>post_log := [(msg_above, Status 204)]\<rparr>"

definition world_rule7_twice :: world where
  "world_rule7_twice =
     world_rule7\<lparr>post_log := [(msg_above, Status 204), (msg_above, Status 204)],
                  alert_state := (\<lambda>a. None)(7 := Some \<lparr>last_sent_epoch = Some 5060,
                                                        last_sent_key = None\<rparr>)\<rparr>"

text \<open>
  A symbol with the single rule 9 (\<^verbatim>\<open>earnings_days\<close> 8), quotes that differ only in how the
  earnings date 2 May 2024 is written, and the states after each of three evaluations on
  24 April 2024.
\<close>

definition quote_earn :: "string \<Rightarrow> pydict" where
  "quote_earn d = [(''symbol'', VStr ''A''), (''price'', VFloat 101), (''open'', VFloat 100),
                   (''next_earning_day'', VStr d), (''error'', VNone)]"

definition world_rule9 :: world where
  "world_rule9 = world0\<lparr>alerts := [(9, 2, ''earnings_days'', 8)]\<rparr>"

definition world_rule9_a :: world where
  "world_rule9_a =
     world_rule9\<lparr>clock_reads := 1,
       post_log := [(earnings_msg ''A'' 8 (Some ''2024-05-02''), Status 204)],
       alert_state := (\<lambda>a. None)(9 := Some \<lparr>last_sent_epoch = Some 5000,
                                             last_sent_key = Some ''2024-05-02''\<rparr>)\<rparr>"

definition world_rule9_b :: world where
  "world_rule9_b =
     world_rule9\<lparr>clock_reads := 2,
       post_log := [(earnings_msg ''A'' 8 (Some ''2024-05-02''), Status 204),
                    (earnings_msg ''A'' 8 (Some ''2024-5-2''), Status 204)],
       alert_state := (\<lambda>a. None)(9 := Some \<lparr>last_sent_epoch = Some 5060,
                                             last_sent_key = Some ''2024-5-2''\<rparr>)\<rparr>"

definition world_rule9_c :: world where
  "world_rule9_c =
     world_rule9\<lparr>clock_reads := 3,
       post_log := [(earnings_msg ''A'' 8 (Some ''2024-05-02''), Status 204),
                    (earnings_msg ''A'' 8 (Some ''2024-5-2''), Status 204),
                    (earnings_msg ''A'' 8 (Some ''2024-05-02''), Status 204)],
       alert_state := (\<lambda>a. None)(9 := Some \<lparr>last_sent_epoch = Some 5120,
                                             last_sent_key = Some ''2024-05-02''\<rparr>)\<rparr>"







definition env_long_error :: env where
  "env_long_error = env0\<lparr>provider_get_full := (\<lambda>k ticker.
      Returns (Some [(''symbol'', VStr ticker), (''error'', VStr (replicate 400 (CHR ''x'')))]))\<rparr>"


section \<open>Properties of the fallback composer\<close>

lemma has_data_network_error_payload [simp]:
  "\<not> has_data (Some (network_error_payload symbol src))"
  by (simp add: has_data_def odget_def dget_def network_error_payload_def)

lemma error_network_error_payload [simp]:
  "odget (Some (network_error_payload symbol src)) ''error'' = VStr ''network_error''"
  by (simp add: odget_def dget_def network_error_payload_def)

text \<open>
  Claim C3. If the primary provider's \<^verbatim>\<open>get_full\<close> returns a payload whose \<^verbatim>\<open>error\<close> field is
  null and whose \<^verbatim>\<open>price\<close> or \<^verbatim>\<open>prev_close\<close> is non-null, the fallback composer returns that
  payload unchanged and only the primary provider is invoked, whatever the secondary is.
\<close>

theorem fallback_primary_wins:
  assumes "get_full primary symbol = Returns (Some d)"
    and "dget d ''error'' = VNone"
    and "dget d ''price'' \<noteq> VNone \<or> dget d ''prev_close'' \<noteq> VNone"
  shows "fallback_get_full primary secondary symbol = (Some d, [Primary])"
proof -
  from assms(3) have "d \<noteq> []"
    by (auto simp: dget_def)
  with assms(3) have "has_data (Some d)"
    by (simp add: has_data_def dict_truthy_def odget_def)
  moreover from assms(2) have "\<not> truthy (odget (Some d) ''error'')"
    by (simp add: odget_def)
  ultimately show ?thesis
    using assms(1) by (simp add: fallback_get_full_def Let_def)
qed

theorem fallback_primary_wins_witness:
  "get_full provider_ok ''aapl'' = Returns (Some quote_aapl)
   \<and> dget quote_aapl ''error'' = VNone
   \<and> dget quote_aapl ''price'' \<noteq> VNone
   \<and> fallback_get_full provider_ok provider_raising ''aapl'' = (Some quote_aapl, [Primary])"
proof -
  have a: "get_full provider_ok ''aapl'' = Returns (Some quote_aapl)"
    by (simp add: provider_ok_def)
  have b: "dget quote_aapl ''error'' = VNone"
    by (simp add: dget_def quote_aapl_def)
  have c: "dget quote_aapl ''price'' \<noteq> VNone"
    by (simp add: dget_def quote_aapl_def)
  from c have c': "dget quote_aapl ''price'' \<noteq> VNone \<or> dget quote_aapl ''prev_close'' \<noteq> VNone" ..
  show ?thesis
    using a b c fallback_primary_wins [OF a b c', of provider_raising] by simp
qed

text \<open>
  Claim C7. If the primary provider's \<^verbatim>\<open>get_full\<close> raises and the secondary's returns, the
  composer's result is the secondary's result (after both providers were invoked).
\<close>

theorem fallback_primary_raises:
  assumes "get_full primary symbol = Raises"
    and "get_full secondary symbol = Returns d2"
  shows "fallback_get_full primary secondary symbol = (d2, [Primary, Secondary])"
  using assms by (simp add: fallback_get_full_def Let_def)

theorem fallback_primary_raises_witness:
  "get_full provider_raising ''aapl'' = Raises
   \<and> get_full provider_ok ''aapl'' = Returns (Some quote_aapl)
   \<and> fallback_get_full provider_raising provider_ok ''aapl'' = (Some quote_aapl, [Primary, Secondary])"
proof -
  have a: "get_full provider_raising ''aapl'' = Raises"
    by (simp add: provider_raising_def)
  have b: "get_full provider_ok ''aapl'' = Returns (Some quote_aapl)"
    by (simp add: provider_ok_def)
  show ?thesis
    using a b fallback_primary_raises [OF a b] by simp
qed

section \<open>Properties of the run-status recovery\<close>

lemma auto_recover_not_running:
  assumes "\<not> is_run_already_running w"
  shows "auto_recover_run_status cfg e w = w"
  using assms
  by (auto simp: auto_recover_run_status_def is_run_already_running_def split: option.splits)

lemma auto_recover_timeout:
  assumes "run_status w = Some r" and "phase r = ''running''" and "started_epoch r = Some started"
    and "time_at e (clock_reads w) - started \<ge> RUN_TIMEOUT_SECONDS cfg"
  shows "auto_recover_run_status cfg e w =
           w\<lparr>clock_reads := Suc (Suc (clock_reads w)),
             run_status := Some (r\<lparr>phase := ''finished'',
                                   finished_epoch := Some (time_at e (Suc (clock_reads w))),
                                   status_code := Some ''interrupted_timeout'',
                                   message := Some ''Auto-recovered: run exceeded timeout''\<rparr>)\<rparr>"
  using assms by (simp add: auto_recover_run_status_def read_time_def)

text \<open>
  Claim C6. A run-status row in phase \<^verbatim>\<open>running\<close> whose integer \<^verbatim>\<open>started_epoch\<close> is at least
  \<^verbatim>\<open>RUN_TIMEOUT_SECONDS\<close> before the current time is moved by the recovery to phase
  \<^verbatim>\<open>finished\<close> with status code \<^verbatim>\<open>interrupted_timeout\<close> (the other columns keep their
  values, \<^verbatim>\<open>finished_epoch\<close> and \<^verbatim>\<open>message\<close> are set); running the recovery again on the
  result, at any later time, changes nothing, and neither does running it on a state
  whose phase is not \<^verbatim>\<open>running\<close>.
\<close>

theorem auto_recover_timeout_idempotent:
  assumes "run_status w = Some r" and "phase r = ''running''" and "started_epoch r = Some started"
    and "time_at e (clock_reads w) - started \<ge> RUN_TIMEOUT_SECONDS cfg"
  shows "run_status (auto_recover_run_status cfg e w) =
           Some (r\<lparr>phase := ''finished'',
                   finished_epoch := Some (time_at e (Suc (clock_reads w))),
                   status_code := Some ''interrupted_timeout'',
                   message := Some ''Auto-recovered: run exceeded timeout''\<rparr>)
         \<and> auto_recover_run_status cfg e' (auto_recover_run_status cfg e w) =
             auto_recover_run_status cfg e w
         \<and> (\<not> is_run_already_running w' \<longrightarrow> auto_recover_run_status cfg e' w' = w')"
proof -
  let ?w = "auto_recover_run_status cfg e w"
  have rs: "run_status ?w =
           Some (r\<lparr>phase := ''finished'',
                   finished_epoch := Some (time_at e (Suc (clock_reads w))),
                   status_code := Some ''interrupted_timeout'',
                   message := Some ''Auto-recovered: run exceeded timeout''\<rparr>)"
    by (simp add: auto_recover_timeout [OF assms])
  then have "\<not> is_run_already_running ?w"
    by (simp add: is_run_already_running_def)
  then have again: "auto_recover_run_status cfg e' ?w = ?w"
    by (rule auto_recover_not_running)
  have other: "\<not> is_run_already_running w' \<longrightarrow> auto_recover_run_status cfg e' w' = w'"
    by (simp add: auto_recover_not_running)
  from rs again other show ?thesis by blast
qed

theorem auto_recover_timeout_idempotent_witness:
  "run_status world0 = Some row_running
   \<and> phase row_running = ''running''
   \<and> started_epoch row_running = Some 100
   \<and> time_at env0 (clock_reads world0) - 100 \<ge> RUN_TIMEOUT_SECONDS cfg0
   \<and> run_status (auto_recover_run_status cfg0 env0 world0) =
       Some (row_running\<lparr>phase := ''finished'', finished_epoch := Some 1001,
                         status_code := Some ''interrupted_timeout'',
                         message := Some ''Auto-recovered: run exceeded timeout''\<rparr>)
   \<and> auto_recover_run_status cfg0 env0 (auto_recover_run_status cfg0 env0 world0) =
       auto_recover_run_status cfg0 env0 world0
   \<and> \<not> is_run_already_running (world0\<lparr>run_status := None\<rparr>)
   \<and> auto_recover_run_status cfg0 env0 (world0\<lparr>run_status := None\<rparr>) = world0\<lparr>run_status := None\<rparr>"
proof -
  have a: "run_status world0 = Some row_running"
    by (simp add: world0_def)
  have b: "phase row_running = ''running''"
    by (simp add: row_running_def)
  have c: "started_epoch row_running = Some 100"
    by (simp add: row_running_def)
  have d: "time_at env0 (clock_reads world0) - 100 \<ge> RUN_TIMEOUT_SECONDS cfg0"
    by (simp add: env0_def world0_def cfg0_def)
  have n: "\<not> is_run_already_running (world0\<lparr>run_status := None\<rparr>)"
    by (simp add: is_run_already_running_def)
  have t: "time_at env0 (Suc (clock_reads world0)) = 1001"
    by (simp add: env0_def world0_def)
  show ?thesis
    using a b c d n t
      auto_recover_timeout_idempotent [OF a b c d, of env0 "world0\<lparr>run_status := None\<rparr>"]
    by simp
qed

section \<open>Properties of the alert evaluator\<close>

text \<open>
  What the loop body guarantees in every environment: a price or percent rule inside its
  cooldown window is skipped without a POST; its suppression row changes only after a
  2xx delivery and then holds the time of the evaluation; an earnings rule delivers only
  when the days match and the stored key differs from the current date string, which it
  then stores. None of this tells that a delivery is followed by a stored stamp.
\<close>

lemma notify_discord_cases:
  "notify_discord cfg e content w = (ok, w') \<Longrightarrow>
     alert_state w' = alert_state w
     \<and> (ok \<longrightarrow> (\<exists>code. post_log w' = post_log w @ [(content, Status code)] \<and> code div 100 = 2))"
  by (auto simp: notify_discord_def Let_def split: if_splits http_result.splits)

lemma eval_alert_in_cooldown:
  assumes "a_type \<noteq> ''earnings_days''"
    and "get_last_sent_epoch w alert_id = Some t"
    and "now_epoch - t < COOLDOWN_MINUTES cfg * 60"
  shows "eval_alert cfg e ticker price open' pct next_earn now_epoch (alert_id, a_type, a_val) (w, sent)
         = (w, sent)"
  using assms by (simp add: eval_alert_def cooldown_ok_def)

lemma eval_alert_stamp_only_after_delivery:
  assumes "a_type \<noteq> ''earnings_days''"
    and "eval_alert cfg e ticker price open' pct next_earn now_epoch (alert_id, a_type, a_val) (w, sent)
         = (w1, sent1)"
  shows "(sent1 = sent \<and> alert_state w1 = alert_state w)
       \<or> (sent1 = sent + 1 \<and> get_last_sent_epoch w1 alert_id = Some now_epoch
           \<and> (\<exists>msg code. post_log w1 = post_log w @ [(msg, Status code)] \<and> code div 100 = 2))"
  using assms
  by (auto simp: eval_alert_def Let_def set_last_sent_epoch_def get_last_sent_epoch_def
      split: if_splits sum.splits option.splits prod.splits bool.splits
      dest!: notify_discord_cases)

lemma days_until_earnings_state:
  "days_until_earnings e next_earn w = (d, w') \<Longrightarrow>
     alert_state w' = alert_state w \<and> post_log w' = post_log w
     \<and> (d \<noteq> None \<longrightarrow> next_earn = Some (earn_key next_earn))"
  by (auto simp: days_until_earnings_def read_local_def earn_key_def
      split: option.splits if_splits outcome.splits)

lemma eval_alert_earnings_fires_only_on_new_key:
  assumes "eval_alert cfg e ticker price open' pct next_earn now_epoch
             (alert_id, ''earnings_days'', a_val) (w, sent) = (w1, sent1)"
  shows "(sent1 = sent \<and> alert_state w1 = alert_state w)
       \<or> (sent1 = sent + 1
           \<and> fst (days_until_earnings e next_earn w) = Some (py_int a_val)
           \<and> get_last_sent_key w alert_id \<noteq> Some (earn_key next_earn)
           \<and> get_last_sent_key w1 alert_id = Some (earn_key next_earn)
           \<and> (\<exists>code. post_log w1 = post_log w @ [(earnings_msg ticker a_val next_earn, Status code)]
                  \<and> code div 100 = 2))"
  using assms
  by (auto simp: eval_alert_def Let_def set_last_sent_def get_last_sent_key_def
      split: prod.splits if_splits option.splits bool.splits
      dest!: notify_discord_cases days_until_earnings_state)


lemma first_eval:
  "eval_alert cfg0 env0 ''A'' (VFloat 101) (VFloat 100) (Some 1) None 5000 (7, ''above'', 100) (world0, 0)
     = (world_sent, 1)"
  by (simp add: eval_alert_def world0_def cfg0_def env0_def get_last_sent_epoch_def cooldown_ok_def
      trigger_of_def price_cmp_def num_of_def build_alert_msg_def fmt_price_def fmt_pct_def
      notify_discord_def Let_def set_last_sent_epoch_def world_sent_def)

lemma pct_quote_aapl:
  "pct_from_open_of (dget quote_aapl ''price'') (dget quote_aapl ''open'') = Inr (Some 1)"
  by (simp add: pct_from_open_of_def quote_aapl_def dget_def num_of_def)

lemma next_earn_quote_aapl: "next_earn_of e quote_aapl = None"
  by (simp add: next_earn_of_def quote_aapl_def earnings_keys_def dget_def)

lemma rule7_stamp_lost:
  "evaluate_and_notify cfg0 env_stamp_fails 2 ''A'' (Some quote_aapl) 5000 world_rule7
     = Inr (world_rule7_posted, 0)"
proof -
  have step: "eval_alert cfg0 env_stamp_fails ''A'' (VFloat 101) (VFloat 100) (Some 1) None 5000
                (7, ''above'', 100) (world_rule7, 0) = (world_rule7_posted, 0)"
    by (simp add: eval_alert_def world_rule7_def world_rule7_posted_def world0_def cfg0_def
        env_stamp_fails_def env0_def get_last_sent_epoch_def cooldown_ok_def trigger_of_def
        price_cmp_def num_of_def build_alert_msg_def fmt_price_def fmt_pct_def
        notify_discord_def Let_def msg_above_def)
  have rows: "alerts world_rule7 = [(7, 2, ''above'', 100)]"
    by (simp add: world_rule7_def)
  have nofault: "\<not> db_fault env_stamp_fails (ReadAlerts 2)"
    by (simp add: env_stamp_fails_def)
  have vals: "dget quote_aapl ''price'' = VFloat 101" "dget quote_aapl ''open'' = VFloat 100"
    by (simp_all add: quote_aapl_def dget_def)
  show ?thesis
    using step pct_quote_aapl
    by (simp add: evaluate_and_notify_def rows nofault vals next_earn_quote_aapl)
qed

lemma rule7_second_delivery:
  "evaluate_and_notify cfg0 env0 2 ''A'' (Some quote_aapl) 5060 world_rule7_posted
     = Inr (world_rule7_twice, 1)"
proof -
  have step: "eval_alert cfg0 env0 ''A'' (VFloat 101) (VFloat 100) (Some 1) None 5060
                (7, ''above'', 100) (world_rule7_posted, 0) = (world_rule7_twice, 1)"
    by (simp add: eval_alert_def world_rule7_def world_rule7_posted_def world_rule7_twice_def
        world0_def cfg0_def env0_def get_last_sent_epoch_def cooldown_ok_def trigger_of_def
        price_cmp_def num_of_def build_alert_msg_def fmt_price_def fmt_pct_def
        notify_discord_def Let_def msg_above_def set_last_sent_epoch_def)
  have rows: "alerts world_rule7_posted = [(7, 2, ''above'', 100)]"
    by (simp add: world_rule7_posted_def world_rule7_def)
  have nofault: "\<not> db_fault env0 (ReadAlerts 2)"
    by (simp add: env0_def)
  have vals: "dget quote_aapl ''price'' = VFloat 101" "dget quote_aapl ''open'' = VFloat 100"
    by (simp_all add: quote_aapl_def dget_def)
  show ?thesis
    using step pct_quote_aapl
    by (simp add: evaluate_and_notify_def rows nofault vals next_earn_quote_aapl)
qed

text \<open>
  Claim C1, at an input where the code breaks it. Rule 7 (\<^verbatim>\<open>above\<close> 100) of symbol 2 triggers
  at price 101 and the webhook answers 204, but the write of \<^verbatim>\<open>last_sent_epoch\<close> raises: the
  notification has been delivered, \<^verbatim>\<open>_evaluate_and_notify\<close> returns 0 and the rule has no
  \<^verbatim>\<open>last_sent_epoch\<close>. Sixty seconds later, inside the cooldown window of 900 seconds, the next
  evaluation of the same rule delivers a second notification.
\<close>

theorem cooldown_stamp_lost_second_delivery:
  "evaluate_and_notify cfg0 env_stamp_fails 2 ''A'' (Some quote_aapl) 5000 world_rule7
     = Inr (world_rule7_posted, 0)
   \<and> map snd (post_log world_rule7_posted) = [Status 204]
   \<and> get_last_sent_epoch world_rule7_posted 7 = None
   \<and> 5060 - 5000 < COOLDOWN_MINUTES cfg0 * 60
   \<and> evaluate_and_notify cfg0 env0 2 ''A'' (Some quote_aapl) 5060 world_rule7_posted
     = Inr (world_rule7_twice, 1)
   \<and> map snd (post_log world_rule7_twice) = [Status 204, Status 204]"
  using rule7_stamp_lost rule7_second_delivery
  by (simp add: world_rule7_posted_def world_rule7_twice_def world_rule7_def world0_def
      get_last_sent_epoch_def cfg0_def)

lemma quote_earn_fields:
  "dget (quote_earn d) ''price'' = VFloat 101" "dget (quote_earn d) ''open'' = VFloat 100"
  "d \<noteq> [] \<Longrightarrow> next_earn_of e (quote_earn d) = Some (take 10 d)"
  by (simp_all add: quote_earn_def dget_def next_earn_of_def earnings_keys_def py_str_def)

lemma pct_101_100: "pct_from_open_of (VFloat 101) (VFloat 100) = Inr (Some 1)"
  by (simp add: pct_from_open_of_def num_of_def)

lemma days_2024_05_02:
  "days_until_earnings env0 (Some ''2024-05-02'') w = (Some 8, w\<lparr>clock_reads := Suc (clock_reads w)\<rparr>)"
  "days_until_earnings env0 (Some ''2024-5-2'') w = (Some 8, w\<lparr>clock_reads := Suc (clock_reads w)\<rparr>)"
  by (simp_all add: days_until_earnings_def env0_def read_local_def)

lemma rule9_first:
  "evaluate_and_notify cfg0 env0 2 ''A'' (Some (quote_earn ''2024-05-02'')) 5000 world_rule9
     = Inr (world_rule9_a, 1)"
proof -
  have step: "eval_alert cfg0 env0 ''A'' (VFloat 101) (VFloat 100) (Some 1) (Some ''2024-05-02'') 5000
                (9, ''earnings_days'', 8) (world_rule9, 0) = (world_rule9_a, 1)"
    by (simp add: eval_alert_def days_2024_05_02 py_int_def get_last_sent_key_def earn_key_def
        notify_discord_def Let_def set_last_sent_def world_rule9_def world_rule9_a_def world0_def
        cfg0_def)
      (simp add: env0_def set_last_sent_def earn_key_def get_last_sent_key_def)
  have rows: "alerts world_rule9 = [(9, 2, ''earnings_days'', 8)]"
    by (simp add: world_rule9_def)
  have nofault: "\<not> db_fault env0 (ReadAlerts 2)"
    by (simp add: env0_def)
  show ?thesis
    using step
    by (simp add: evaluate_and_notify_def rows nofault quote_earn_fields pct_101_100)
qed

lemma rule9_second:
  "evaluate_and_notify cfg0 env0 2 ''A'' (Some (quote_earn ''2024-5-2'')) 5060 world_rule9_a
     = Inr (world_rule9_b, 1)"
proof -
  have step: "eval_alert cfg0 env0 ''A'' (VFloat 101) (VFloat 100) (Some 1) (Some ''2024-5-2'') 5060
                (9, ''earnings_days'', 8) (world_rule9_a, 0) = (world_rule9_b, 1)"
    by (simp add: eval_alert_def days_2024_05_02 py_int_def get_last_sent_key_def earn_key_def
        notify_discord_def Let_def set_last_sent_def world_rule9_def world_rule9_a_def
        world_rule9_b_def world0_def cfg0_def)
      (simp add: env0_def set_last_sent_def earn_key_def get_last_sent_key_def)
  have rows: "alerts world_rule9_a = [(9, 2, ''earnings_days'', 8)]"
    by (simp add: world_rule9_a_def world_rule9_def)
  have nofault: "\<not> db_fault env0 (ReadAlerts 2)"
    by (simp add: env0_def)
  show ?thesis
    using step
    by (simp add: evaluate_and_notify_def rows nofault quote_earn_fields pct_101_100)
qed

lemma rule9_third:
  "evaluate_and_notify cfg0 env0 2 ''A'' (Some (quote_earn ''2024-05-02'')) 5120 world_rule9_b
     = Inr (world_rule9_c, 1)"
proof -
  have step: "eval_alert cfg0 env0 ''A'' (VFloat 101) (VFloat 100) (Some 1) (Some ''2024-05-02'') 5120
                (9, ''earnings_days'', 8) (world_rule9_b, 0) = (world_rule9_c, 1)"
    by (simp add: eval_alert_def days_2024_05_02 py_int_def get_last_sent_key_def earn_key_def
        notify_discord_def Let_def set_last_sent_def world_rule9_def world_rule9_b_def
        world_rule9_c_def world0_def cfg0_def)
      (simp add: env0_def set_last_sent_def earn_key_def get_last_sent_key_def)
  have rows: "alerts world_rule9_b = [(9, 2, ''earnings_days'', 8)]"
    by (simp add: world_rule9_b_def world_rule9_def)
  have nofault: "\<not> db_fault env0 (ReadAlerts 2)"
    by (simp add: env0_def)
  show ?thesis
    using step
    by (simp add: evaluate_and_notify_def rows nofault quote_earn_fields pct_101_100)
qed

text \<open>
  Claim C2, at an input where the code breaks it. Rule 9 (\<^verbatim>\<open>earnings_days\<close> 8) of symbol 2 is
  evaluated three times on 24 April 2024 while the provider reports the earnings date
  2 May 2024 as \<^verbatim>\<open>2024-05-02\<close>, then \<^verbatim>\<open>2024-5-2\<close>, then \<^verbatim>\<open>2024-05-02\<close> again; the webhook answers 204
  each time. Both strings parse to the same date, but \<^verbatim>\<open>last_sent_key\<close> holds the raw string
  of the last delivery only, so every evaluation delivers a reminder: three for one
  earnings date, two of them for the same string.
\<close>

theorem earnings_same_date_delivered_again:
  "strptime_ymd env0 ''2024-05-02'' = strptime_ymd env0 ''2024-5-2''
   \<and> evaluate_and_notify cfg0 env0 2 ''A'' (Some (quote_earn ''2024-05-02'')) 5000 world_rule9
     = Inr (world_rule9_a, 1)
   \<and> evaluate_and_notify cfg0 env0 2 ''A'' (Some (quote_earn ''2024-5-2'')) 5060 world_rule9_a
     = Inr (world_rule9_b, 1)
   \<and> evaluate_and_notify cfg0 env0 2 ''A'' (Some (quote_earn ''2024-05-02'')) 5120 world_rule9_b
     = Inr (world_rule9_c, 1)
   \<and> post_log world_rule9_c =
       [(earnings_msg ''A'' 8 (Some ''2024-05-02''), Status 204),
        (earnings_msg ''A'' 8 (Some ''2024-5-2''), Status 204),
        (earnings_msg ''A'' 8 (Some ''2024-05-02''), Status 204)]"
  using rule9_first rule9_second rule9_third
  by (simp add: world_rule9_c_def env0_def)

text \<open>
  Claim C10. For a rule with no recorded \<^verbatim>\<open>last_sent_epoch\<close> (no suppression row, or a row
  whose \<^verbatim>\<open>last_sent_epoch\<close> is null) \<^verbatim>\<open>get_last_sent_epoch\<close> is \<^verbatim>\<open>None\<close> and the cooldown check
  is true at every time and for every configured cooldown, so a price or percent rule
  that triggers goes on to the webhook.
\<close>

theorem cooldown_ok_without_record:
  assumes "alert_state w alert_id = None
           \<or> (\<exists>r. alert_state w alert_id = Some r \<and> last_sent_epoch r = None)"
  shows "get_last_sent_epoch w alert_id = None
       \<and> cooldown_ok cfg (get_last_sent_epoch w alert_id) now_epoch
       \<and> (a_type \<noteq> ''earnings_days''
            \<and> \<not> db_fault e (ReadAlertState alert_id)
            \<and> trigger_of e a_type a_val price pct = Inr (Some trigger)
            \<and> build_alert_msg e ticker price open' pct trigger = Inr msg \<longrightarrow>
          eval_alert cfg e ticker price open' pct next_earn now_epoch (alert_id, a_type, a_val) (w, sent)
            = (case notify_discord cfg e msg w of
                 (True, w1) \<Rightarrow>
                   if db_fault e (WriteAlertState alert_id) then (w1, sent)
                   else (set_last_sent_epoch alert_id now_epoch w1, sent + 1)
               | (False, w1) \<Rightarrow> (w1, sent)))"
proof -
  from assms have n: "get_last_sent_epoch w alert_id = None"
    by (auto simp: get_last_sent_epoch_def)
  then have c: "cooldown_ok cfg (get_last_sent_epoch w alert_id) now_epoch"
    by (simp add: cooldown_ok_def)
  from n show ?thesis
    by (simp add: c eval_alert_def cooldown_ok_def)
qed

theorem cooldown_ok_without_record_witness:
  "alert_state world0 7 = None
   \<and> get_last_sent_epoch world0 7 = None
   \<and> cooldown_ok cfg0 (get_last_sent_epoch world0 7) 5000
   \<and> eval_alert cfg0 env0 ''A'' (VFloat 101) (VFloat 100) (Some 1) None 5000 (7, ''above'', 100) (world0, 0)
       = (world_sent, 1)"
proof -
  have a: "alert_state world0 7 = None"
    by (simp add: world0_def)
  then have a': "alert_state world0 7 = None
           \<or> (\<exists>r. alert_state world0 7 = Some r \<and> last_sent_epoch r = None)" ..
  show ?thesis
    using a first_eval cooldown_ok_without_record [OF a', of cfg0 5000]
    by (simp add: cooldown_ok_def)
qed

section \<open>Properties of the bulk update\<close>



























section \<open>Properties of the snapshot write\<close>















lemma env0_no_fault [simp]: "\<not> db_fault env0 p"
  by (simp add: env0_def)

lemma env_long_error_no_fault [simp]: "\<not> db_fault env_long_error p"
  by (simp add: env_long_error_def env0_def)




section \<open>Properties of the triggers\<close>

lemma api_update_all_guard:
  assumes "api_update_all cfg e w = (resp, Some f, w1)"
  shows "\<not> is_run_already_running w1 \<and> resp = Inr ''started'' \<and> f = CheckAlerts
       \<and> w1 = auto_recover_run_status cfg e w"
  using assms by (auto simp: api_update_all_def Let_def split: if_splits)

lemma api_update_all_refuses:
  assumes "\<not> db_fault e RecoverRunStatus" and "\<not> db_fault e ReadRunStatus"
    and "is_run_already_running (auto_recover_run_status cfg e w)"
  shows "api_update_all cfg e w = (Inr ''already_running'', None, auto_recover_run_status cfg e w)"
  using assms by (simp add: api_update_all_def Let_def)



end
